theory Spec2Isabelle
  imports Main
begin

section \<open>Data model\<close>

text \<open>
  Instants are naive \<^verbatim>\<open>datetime\<close> values: a linear order with microsecond resolution.
  They are modelled as the number of microseconds since a fixed epoch.
  \<^verbatim>\<open>timedelta(hours=h)\<close> is then \<open>h\<close> hours in microseconds.
\<close>

type_synonym datetime = int

definition timedelta_hours :: "int \<Rightarrow> int" where
  "timedelta_hours h = h * 3600000000"

text \<open>
  A \<^verbatim>\<open>datetime\<close> defines neither \<^verbatim>\<open>__bool__\<close> nor \<^verbatim>\<open>__len__\<close>, so every instance
  is truthy; \<^verbatim>\<open>a or b\<close> therefore evaluates to \<^verbatim>\<open>a\<close>.
\<close>

definition truthy :: "datetime \<Rightarrow> bool" where
  "truthy d = True"

definition py_or :: "datetime \<Rightarrow> datetime \<Rightarrow> datetime" where
  "py_or a b = (if truthy a then a else b)"

text \<open>
  \<^verbatim>\<open>models/booking.py\<close>: a row of table \<^verbatim>\<open>booking\<close>. The primary key \<^verbatim>\<open>id\<close> is called
  \<open>booking_id\<close> here. The column \<^verbatim>\<open>active\<close> is modelled as a boolean; a row whose
  \<^verbatim>\<open>active\<close> is null is outside the model.
\<close>

record Booking =
  booking_id :: int
  book_id :: int
  user_id :: int
  start_time :: datetime
  end_time :: datetime
  active :: bool

text \<open>
  \<^verbatim>\<open>schemas/booking.py\<close>: \<^verbatim>\<open>BookingBase\<close>, the body of a create or update request
  (\<^verbatim>\<open>BookingCreate\<close> and \<^verbatim>\<open>BookingUpdate\<close> add nothing to it). The four fields
  \<^verbatim>\<open>book_id\<close>, \<^verbatim>\<open>user_id\<close>, \<^verbatim>\<open>start_time\<close>, \<^verbatim>\<open>end_time\<close> are required; \<^verbatim>\<open>active\<close> has the
  default \<^verbatim>\<open>True\<close> and may be left unset: \<open>in_active = None\<close> is the unset field,
  \<open>Some a\<close> a supplied boolean (a request that supplies null for it is outside the
  model).
\<close>

record BookingBase =
  in_book_id :: int
  in_user_id :: int
  in_start_time :: datetime
  in_end_time :: datetime
  in_active :: "bool option"

text \<open>Reading \<^verbatim>\<open>obj_in.active\<close> gives the default when the field is unset.\<close>

definition get_active :: "BookingBase \<Rightarrow> bool" where
  "get_active obj_in = (case in_active obj_in of None \<Rightarrow> True | Some a \<Rightarrow> a)"

text \<open>
  The database behind an \<^verbatim>\<open>AsyncSession\<close>: the primary keys of the \<^verbatim>\<open>book\<close> and
  \<^verbatim>\<open>user\<close> tables, the committed rows of \<^verbatim>\<open>booking\<close> in insertion order, and the next
  value of the sequence that generates booking ids.
\<close>

record Database =
  book_table :: "int list"
  user_table :: "int list"
  booking_table :: "Booking list"
  booking_seq :: int

section \<open>Storage calls and their failures\<close>

text \<open>
  Every awaited call on the session (\<^verbatim>\<open>execute\<close>, \<^verbatim>\<open>delete\<close>, \<^verbatim>\<open>commit\<close>, \<^verbatim>\<open>refresh\<close>)
  may raise \<^verbatim>\<open>SQLAlchemyError\<close>. An operation is run under a fault: \<open>NoFault\<close>, or
  \<open>FailAt n msg\<close>, where the \<open>n\<close>-th storage call of the operation (counted from 0)
  raises \<^verbatim>\<open>SQLAlchemyError(msg)\<close>. A commit that raises persists nothing.
\<close>

datatype fault = NoFault | FailAt nat string

fun fails :: "fault \<Rightarrow> nat \<Rightarrow> bool" where
  "fails NoFault n = False"
| "fails (FailAt k msg) n = (k = n)"

fun fault_msg :: "fault \<Rightarrow> string" where
  "fault_msg NoFault = []"
| "fault_msg (FailAt k msg) = msg"

text \<open>What the body of a \<^verbatim>\<open>try\<close> block raises, and what the CRUD layer raises to its caller.\<close>

datatype raised = SQLAlchemyError string | ValueError string

datatype exn = Exception string

text \<open>
  The three handlers of \<^verbatim>\<open>create\<close> and \<^verbatim>\<open>update\<close>; each calls \<^verbatim>\<open>db.rollback()\<close>, which
  discards the session's pending changes and leaves the committed rows as they are.
\<close>

definition rollback :: "Database \<Rightarrow> Database" where
  "rollback db = db"

fun handle :: "raised \<Rightarrow> exn" where
  "handle (SQLAlchemyError e) = Exception (''Database error occurred: '' @ e)"
| "handle (ValueError e) = Exception (''Validation error: '' @ e)"

section \<open>The half-open overlap filter\<close>

text \<open>
  The \<^verbatim>\<open>and_(...)\<close> filter of the overlap queries, for a requested interval
  \<open>[s, e)\<close> on book \<open>bk\<close>.
\<close>

definition overlap_filter :: "int \<Rightarrow> datetime \<Rightarrow> datetime \<Rightarrow> Booking \<Rightarrow> bool" where
  "overlap_filter bk s e b \<longleftrightarrow>
     book_id b = bk \<and> end_time b > s \<and> start_time b < e \<and> active b = True"

section \<open>CRUDBooking\<close>

subsection \<open>create\<close>

definition create_try :: "fault \<Rightarrow> Database \<Rightarrow> BookingBase \<Rightarrow> (raised + Booking option) \<times> Database" where
  "create_try f db obj_in =
    (if in_start_time obj_in \<ge> in_end_time obj_in then
       (Inl (ValueError ''Start time must be before end time''), db)
     else if fails f 0 then (Inl (SQLAlchemyError (fault_msg f)), db)
     else if List.find (\<lambda>k. k = in_book_id obj_in) (book_table db) = None then
       (Inl (ValueError ''Book with given ID does not exist''), db)
     else if fails f 1 then (Inl (SQLAlchemyError (fault_msg f)), db)
     else if List.find (\<lambda>k. k = in_user_id obj_in) (user_table db) = None then
       (Inl (ValueError ''User with given ID does not exist''), db)
     else if fails f 2 then (Inl (SQLAlchemyError (fault_msg f)), db)
     else if List.find (overlap_filter (in_book_id obj_in) (in_start_time obj_in) (in_end_time obj_in))
               (booking_table db) \<noteq> None then
       (Inr None, db)
     else
       let db_obj = \<lparr> booking_id = booking_seq db,
                      book_id = in_book_id obj_in,
                      user_id = in_user_id obj_in,
                      start_time = in_start_time obj_in,
                      end_time = in_end_time obj_in,
                      active = get_active obj_in \<rparr>
       in if fails f 3 then (Inl (SQLAlchemyError (fault_msg f)), db)
          else
            let db' = db \<lparr> booking_table := booking_table db @ [db_obj],
                           booking_seq := booking_seq db + 1 \<rparr>
            in if fails f 4 then (Inl (SQLAlchemyError (fault_msg f)), db')
               else (Inr (Some db_obj), db'))"

definition create :: "fault \<Rightarrow> Database \<Rightarrow> BookingBase \<Rightarrow> (exn + Booking option) \<times> Database" where
  "create f db obj_in =
    (case create_try f db obj_in of
       (Inl r, db') \<Rightarrow> (Inl (handle r), rollback db')
     | (Inr v, db') \<Rightarrow> (Inr v, db'))"

subsection \<open>get\<close>

text \<open>
  The handlers of \<^verbatim>\<open>get\<close>, \<^verbatim>\<open>remove\<close> and \<^verbatim>\<open>cancel\<close> wrap the error in the same way
  but call no rollback.
\<close>

definition get :: "fault \<Rightarrow> Database \<Rightarrow> int \<Rightarrow> exn + Booking option" where
  "get f db i =
    (if fails f 0 then Inl (handle (SQLAlchemyError (fault_msg f)))
     else Inr (List.find (\<lambda>b. booking_id b = i) (booking_table db)))"

subsection \<open>update\<close>

text \<open>
  The loop \<^verbatim>\<open>for field, value in obj_in.dict(exclude_unset=True).items(): setattr(...)\<close>:
  the four required fields are always in the dictionary, \<^verbatim>\<open>active\<close> only when supplied.
\<close>

definition set_fields :: "Booking \<Rightarrow> BookingBase \<Rightarrow> Booking" where
  "set_fields db_obj obj_in =
    (let o1 = db_obj \<lparr> book_id := in_book_id obj_in,
                       user_id := in_user_id obj_in,
                       start_time := in_start_time obj_in,
                       end_time := in_end_time obj_in \<rparr>
     in case in_active obj_in of None \<Rightarrow> o1 | Some a \<Rightarrow> o1 \<lparr> active := a \<rparr>)"

text \<open>Committing a modified object writes its attributes to the row with its primary key.\<close>

definition write_row :: "Booking \<Rightarrow> Booking list \<Rightarrow> Booking list" where
  "write_row obj rows = map (\<lambda>r. if booking_id r = booking_id obj then obj else r) rows"

definition update_try ::
  "fault \<Rightarrow> Database \<Rightarrow> Booking \<Rightarrow> BookingBase \<Rightarrow> (raised + Booking option) \<times> Database" where
  "update_try f db db_obj obj_in =
    (if truthy (in_start_time obj_in) \<and> truthy (in_end_time obj_in)
        \<and> in_start_time obj_in \<ge> in_end_time obj_in then
       (Inl (ValueError ''Start time must be before end time''), db)
     else if fails f 0 then (Inl (SQLAlchemyError (fault_msg f)), db)
     else if List.find (\<lambda>k. k = in_book_id obj_in) (book_table db) = None then
       (Inl (ValueError ''Book with given ID does not exist''), db)
     else if fails f 1 then (Inl (SQLAlchemyError (fault_msg f)), db)
     else if List.find (\<lambda>k. k = in_user_id obj_in) (user_table db) = None then
       (Inl (ValueError ''User with given ID does not exist''), db)
     else
       let start_time_naive = py_or (in_start_time obj_in) (start_time db_obj);
           end_time_naive = py_or (in_end_time obj_in) (end_time db_obj);
           checked = (truthy start_time_naive \<or> truthy end_time_naive)
       in if checked \<and> fails f 2 then (Inl (SQLAlchemyError (fault_msg f)), db)
          else if checked \<and>
                  List.find (\<lambda>b. overlap_filter (book_id db_obj) start_time_naive end_time_naive b
                                  \<and> booking_id b \<noteq> booking_id db_obj)
                    (booking_table db) \<noteq> None then
            (Inr None, db)
          else
            let db_obj' = set_fields db_obj obj_in
            in if fails f 3 then (Inl (SQLAlchemyError (fault_msg f)), db)
               else
                 let db' = db \<lparr> booking_table := write_row db_obj' (booking_table db) \<rparr>
                 in if fails f 4 then (Inl (SQLAlchemyError (fault_msg f)), db')
                    else (Inr (Some db_obj'), db'))"

definition update ::
  "fault \<Rightarrow> Database \<Rightarrow> Booking \<Rightarrow> BookingBase \<Rightarrow> (exn + Booking option) \<times> Database" where
  "update f db db_obj obj_in =
    (case update_try f db db_obj obj_in of
       (Inl r, db') \<Rightarrow> (Inl (handle r), rollback db')
     | (Inr v, db') \<Rightarrow> (Inr v, db'))"

subsection \<open>remove\<close>

definition remove :: "fault \<Rightarrow> Database \<Rightarrow> int \<Rightarrow> (exn + Booking option) \<times> Database" where
  "remove f db i =
    (if fails f 0 then (Inl (handle (SQLAlchemyError (fault_msg f))), db)
     else case List.find (\<lambda>b. booking_id b = i) (booking_table db) of
       None \<Rightarrow> (Inr None, db)
     | Some db_obj \<Rightarrow>
         if fails f 1 then (Inl (handle (SQLAlchemyError (fault_msg f))), db)
         else if fails f 2 then (Inl (handle (SQLAlchemyError (fault_msg f))), db)
         else (Inr (Some db_obj),
               db \<lparr> booking_table :=
                      filter (\<lambda>r. booking_id r \<noteq> booking_id db_obj) (booking_table db) \<rparr>))"

subsection \<open>cancel\<close>

text \<open>\<open>utcnow\<close> is the value of \<^verbatim>\<open>datetime.utcnow()\<close> read by the call.\<close>

definition cancel ::
  "fault \<Rightarrow> datetime \<Rightarrow> Database \<Rightarrow> int \<Rightarrow> (exn + Booking option) \<times> Database" where
  "cancel f utcnow db i =
    (if fails f 0 then (Inl (handle (SQLAlchemyError (fault_msg f))), db)
     else case List.find (\<lambda>b. booking_id b = i) (booking_table db) of
       None \<Rightarrow> (Inr None, db)
     | Some db_obj \<Rightarrow>
         let db_obj' = db_obj \<lparr> active := False,
                                 end_time := utcnow + timedelta_hours 3 \<rparr>
         in if fails f 1 then (Inl (handle (SQLAlchemyError (fault_msg f))), db)
            else
              let db' = db \<lparr> booking_table := write_row db_obj' (booking_table db) \<rparr>
              in if fails f 2 then (Inl (handle (SQLAlchemyError (fault_msg f))), db')
                 else (Inr (Some db_obj'), db'))"

section \<open>The expiry task\<close>

text \<open>
  \<^verbatim>\<open>tasks/booking_tasks.py\<close>, \<^verbatim>\<open>update_bookings\<close>: one query, one loop over its result,
  one commit. The coroutine has no handler, so a failure leaves it as
  \<^verbatim>\<open>SQLAlchemyError\<close>.
\<close>

definition update_bookings ::
  "fault \<Rightarrow> datetime \<Rightarrow> Database \<Rightarrow> (raised + unit) \<times> Database" where
  "update_bookings f utcnow db =
    (let now = utcnow + timedelta_hours 3
     in if fails f 0 then (Inl (SQLAlchemyError (fault_msg f)), db)
        else
          let expired_bookings =
                filter (\<lambda>b. end_time b < now \<and> active b = True) (booking_table db);
              flipped = map (\<lambda>booking. booking \<lparr> active := False \<rparr>) expired_bookings
          in if fails f 1 then (Inl (SQLAlchemyError (fault_msg f)), db)
             else (Inr (), db \<lparr> booking_table := foldr write_row flipped (booking_table db) \<rparr>))"

section \<open>The endpoints of \<^verbatim>\<open>api/v1/endpoints/booking.py\<close>\<close>

text \<open>
  Inside its \<^verbatim>\<open>try\<close> block an endpoint sees either the exception of the CRUD layer or an
  \<^verbatim>\<open>HTTPException\<close> it raises itself. \<^verbatim>\<open>HTTPException\<close> is a subclass of \<^verbatim>\<open>Exception\<close>, so
  the handler \<^verbatim>\<open>except Exception as e\<close> catches both and raises
  \<^verbatim>\<open>HTTPException(status_code=..., detail=str(e))\<close>. The text that \<^verbatim>\<open>str\<close> gives for an
  \<^verbatim>\<open>HTTPException\<close> belongs to the web framework; it is the parameter \<open>http_str\<close>.
\<close>

datatype endpoint_raised = Crud exn | HTTP int string

datatype response = Ok Booking | HTTPException int string

fun str_exc :: "(int \<Rightarrow> string \<Rightarrow> string) \<Rightarrow> endpoint_raised \<Rightarrow> string" where
  "str_exc http_str (Crud (Exception msg)) = msg"
| "str_exc http_str (HTTP status detail) = http_str status detail"

definition except_Exception ::
  "(int \<Rightarrow> string \<Rightarrow> string) \<Rightarrow> int \<Rightarrow> endpoint_raised + Booking \<Rightarrow> response" where
  "except_Exception http_str status r =
    (case r of Inl e \<Rightarrow> HTTPException status (str_exc http_str e) | Inr b \<Rightarrow> Ok b)"

text \<open>
  The body shared by the endpoints: the CRUD call's exception propagates, a falsy result
  raises the endpoint's own \<^verbatim>\<open>HTTPException\<close>, a booking is returned.
\<close>

definition if_not ::
  "exn + Booking option \<Rightarrow> int \<Rightarrow> string \<Rightarrow> endpoint_raised + Booking" where
  "if_not r status detail =
    (case r of Inl e \<Rightarrow> Inl (Crud e)
             | Inr None \<Rightarrow> Inl (HTTP status detail)
             | Inr (Some b) \<Rightarrow> Inr b)"

definition create_booking ::
  "(int \<Rightarrow> string \<Rightarrow> string) \<Rightarrow> fault \<Rightarrow> Database \<Rightarrow> BookingBase \<Rightarrow> response \<times> Database" where
  "create_booking http_str f db booking_in =
    (case create f db booking_in of (r, db') \<Rightarrow>
       (except_Exception http_str 400
          (if_not r 400 ''Book is already booked in the specified period''), db'))"

definition read_booking ::
  "(int \<Rightarrow> string \<Rightarrow> string) \<Rightarrow> fault \<Rightarrow> Database \<Rightarrow> int \<Rightarrow> response" where
  "read_booking http_str f db i =
    except_Exception http_str 500 (if_not (get f db i) 404 ''Booking not found'')"

text \<open>
  \<^verbatim>\<open>update_booking\<close> makes two CRUD calls; the storage calls of the second are counted
  after the one of the first.
\<close>

fun after :: "nat \<Rightarrow> fault \<Rightarrow> fault" where
  "after n NoFault = NoFault"
| "after n (FailAt k msg) = (if k < n then NoFault else FailAt (k - n) msg)"

definition update_booking ::
  "(int \<Rightarrow> string \<Rightarrow> string) \<Rightarrow> fault \<Rightarrow> Database \<Rightarrow> int \<Rightarrow> BookingBase \<Rightarrow> response \<times> Database" where
  "update_booking http_str f db i booking_in =
    (case if_not (get f db i) 404 ''Booking not found'' of
       Inl e \<Rightarrow> (except_Exception http_str 400 (Inl e), db)
     | Inr booking \<Rightarrow>
         (case update (after 1 f) db booking booking_in of (r, db') \<Rightarrow>
            (except_Exception http_str 400
               (if_not r 400 ''Book is already booked in the specified period''), db')))"

definition delete_booking ::
  "(int \<Rightarrow> string \<Rightarrow> string) \<Rightarrow> fault \<Rightarrow> Database \<Rightarrow> int \<Rightarrow> response \<times> Database" where
  "delete_booking http_str f db i =
    (case remove f db i of (r, db') \<Rightarrow>
       (except_Exception http_str 500 (if_not r 404 ''Booking not found''), db'))"

definition cancel_booking ::
  "(int \<Rightarrow> string \<Rightarrow> string) \<Rightarrow> fault \<Rightarrow> datetime \<Rightarrow> Database \<Rightarrow> int \<Rightarrow> response \<times> Database" where
  "cancel_booking http_str f utcnow db i =
    (case cancel f utcnow db i of (r, db') \<Rightarrow>
       (except_Exception http_str 500 (if_not r 404 ''Booking not found''), db'))"

fun status_code :: "response \<Rightarrow> int" where
  "status_code (Ok b) = 200"
| "status_code (HTTPException status detail) = status"

section \<open>The non-overlap invariant\<close>

text \<open>
  Two half-open intervals overlap when each ends after the other starts; the stored
  bookings are conflict free when no two distinct active bookings of one book overlap.
\<close>

definition overlaps :: "Booking \<Rightarrow> Booking \<Rightarrow> bool" where
  "overlaps a b \<longleftrightarrow> end_time a > start_time b \<and> start_time a < end_time b"

definition non_overlap :: "Booking list \<Rightarrow> bool" where
  "non_overlap rows \<longleftrightarrow>
     (\<forall>a \<in> set rows. \<forall>b \<in> set rows.
        booking_id a \<noteq> booking_id b \<and> active a \<and> active b \<and> book_id a = book_id b
          \<longrightarrow> \<not> overlaps a b)"

section \<open>Notions used by the statements\<close>

text \<open>
  The booking a create request asks for: the request's fields, the id given by the
  sequence, and \<^verbatim>\<open>active\<close> at its default when the request leaves it unset.
\<close>

definition new_booking :: "Database \<Rightarrow> BookingBase \<Rightarrow> Booking" where
  "new_booking db obj_in =
     \<lparr> booking_id = booking_seq db, book_id = in_book_id obj_in, user_id = in_user_id obj_in,
       start_time = in_start_time obj_in, end_time = in_end_time obj_in,
       active = get_active obj_in \<rparr>"

text \<open>
  A request is blocked when some stored active booking of the same book overlaps the
  requested half-open interval.
\<close>

definition blocked :: "Database \<Rightarrow> BookingBase \<Rightarrow> bool" where
  "blocked db obj_in \<longleftrightarrow>
     (\<exists>b \<in> set (booking_table db).
        book_id b = in_book_id obj_in \<and> active b
        \<and> end_time b > in_start_time obj_in \<and> start_time b < in_end_time obj_in)"

text \<open>A booking after cancellation at \<open>utcnow\<close>.\<close>

definition cancelled :: "datetime \<Rightarrow> Booking \<Rightarrow> Booking" where
  "cancelled utcnow b = b \<lparr> active := False, end_time := utcnow + timedelta_hours 3 \<rparr>"

text \<open>
  A booking is expired for the task run at \<open>utcnow\<close> when it is active and ends before
  the task's reference time, \<open>utcnow\<close> plus three hours.
\<close>

definition expired :: "datetime \<Rightarrow> Booking \<Rightarrow> bool" where
  "expired utcnow b \<longleftrightarrow> active b \<and> end_time b < utcnow + timedelta_hours 3"

definition sweep_row :: "datetime \<Rightarrow> Booking \<Rightarrow> Booking" where
  "sweep_row utcnow b = (if expired utcnow b then b \<lparr> active := False \<rparr> else b)"

text \<open>The exception by which the CRUD layer reports a storage failure.\<close>

definition storage_error :: "string \<Rightarrow> exn + Booking option" where
  "storage_error msg = Inl (Exception (''Database error occurred: '' @ msg))"

text \<open>
  The number of storage calls an operation makes when none of them fails, read off the
  code: no call before the ordering check, one query each for the book, the user and the
  overlap, then commit and refresh; one query, then two more calls when the booking is
  found, for cancel and remove. A fault in call \<open>k\<close> is reached exactly when \<open>k\<close> is
  below this number.
\<close>

definition create_calls :: "Database \<Rightarrow> BookingBase \<Rightarrow> nat" where
  "create_calls db obj_in =
    (if in_start_time obj_in \<ge> in_end_time obj_in then 0
     else if List.find (\<lambda>k. k = in_book_id obj_in) (book_table db) = None then 1
     else if List.find (\<lambda>k. k = in_user_id obj_in) (user_table db) = None then 2
     else if List.find
               (overlap_filter (in_book_id obj_in) (in_start_time obj_in) (in_end_time obj_in))
               (booking_table db) \<noteq> None then 3
     else 5)"

definition update_calls :: "Database \<Rightarrow> Booking \<Rightarrow> BookingBase \<Rightarrow> nat" where
  "update_calls db db_obj obj_in =
    (if in_start_time obj_in \<ge> in_end_time obj_in then 0
     else if List.find (\<lambda>k. k = in_book_id obj_in) (book_table db) = None then 1
     else if List.find (\<lambda>k. k = in_user_id obj_in) (user_table db) = None then 2
     else if List.find
               (\<lambda>b. overlap_filter (book_id db_obj) (in_start_time obj_in) (in_end_time obj_in) b
                    \<and> booking_id b \<noteq> booking_id db_obj)
               (booking_table db) \<noteq> None then 3
     else 5)"

definition cancel_calls :: "Database \<Rightarrow> int \<Rightarrow> nat" where
  "cancel_calls db i =
    (case List.find (\<lambda>b. booking_id b = i) (booking_table db) of
       None \<Rightarrow> 1 | Some db_obj \<Rightarrow> 3)"

definition remove_calls :: "Database \<Rightarrow> int \<Rightarrow> nat" where
  "remove_calls db i =
    (case List.find (\<lambda>b. booking_id b = i) (booking_table db) of
       None \<Rightarrow> 1 | Some db_obj \<Rightarrow> 3)"

subsection \<open>Example states and requests\<close>

definition bk1 :: Booking where
  "bk1 = \<lparr> booking_id = 1, book_id = 7, user_id = 3, start_time = 10, end_time = 12,
           active = True \<rparr>"

definition bk2 :: Booking where
  "bk2 = \<lparr> booking_id = 2, book_id = 8, user_id = 5, start_time = 10, end_time = 12,
           active = True \<rparr>"

definition db_two :: Database where
  "db_two = \<lparr> book_table = [7, 8], user_table = [3, 5], booking_table = [bk1, bk2],
              booking_seq = 3 \<rparr>"

definition bk_off :: Booking where
  "bk_off = \<lparr> booking_id = 1, book_id = 7, user_id = 3, start_time = 10, end_time = 12,
              active = False \<rparr>"

definition db_off :: Database where
  "db_off = \<lparr> book_table = [7], user_table = [3], booking_table = [bk_off],
              booking_seq = 2 \<rparr>"

definition req_move :: BookingBase where
  "req_move = \<lparr> in_book_id = 7, in_user_id = 5, in_start_time = 10, in_end_time = 12,
                in_active = None \<rparr>"

definition req_adjacent :: BookingBase where
  "req_adjacent = \<lparr> in_book_id = 7, in_user_id = 5, in_start_time = 12, in_end_time = 14,
                    in_active = None \<rparr>"

definition req_overlap :: BookingBase where
  "req_overlap = \<lparr> in_book_id = 7, in_user_id = 5, in_start_time = 11, in_end_time = 13,
                   in_active = None \<rparr>"

definition req_empty :: BookingBase where
  "req_empty = \<lparr> in_book_id = 7, in_user_id = 5, in_start_time = 12, in_end_time = 12,
                 in_active = None \<rparr>"

definition req_later :: BookingBase where
  "req_later = \<lparr> in_book_id = 8, in_user_id = 5, in_start_time = 20, in_end_time = 22,
                 in_active = None \<rparr>"

lemmas fixtures = bk1_def bk2_def db_two_def bk_off_def db_off_def req_move_def
  req_adjacent_def req_overlap_def req_empty_def req_later_def

section \<open>Auxiliary facts\<close>

lemma find_id_mem: "(List.find (\<lambda>k. k = (i::int)) ks = None) \<longleftrightarrow> i \<notin> set ks"
  by (auto simp: find_None_iff)

lemma find_Some_id:
  "List.find (\<lambda>r. booking_id r = i) rows = Some b \<Longrightarrow> booking_id b = i \<and> b \<in> set rows"
  by (induction rows) (auto split: if_splits)

lemma find_write_row:
  "List.find (\<lambda>r. booking_id r = i) rows = Some b \<Longrightarrow> booking_id obj = i \<Longrightarrow>
   List.find (\<lambda>r. booking_id r = i) (write_row obj rows) = Some obj"
  by (induction rows) (auto simp: write_row_def split: if_splits)

subsection \<open>create without storage failure\<close>

lemma create_NoFault:
  assumes "in_start_time x < in_end_time x"
    and "in_book_id x \<in> set (book_table db)"
    and "in_user_id x \<in> set (user_table db)"
  shows "create NoFault db x =
     (if blocked db x then (Inr None, db)
      else (Inr (Some (new_booking db x)),
            db \<lparr> booking_table := booking_table db @ [new_booking db x],
                 booking_seq := booking_seq db + 1 \<rparr>))"
  using assms
  by (auto simp: create_def create_try_def find_id_mem find_None_iff blocked_def
      overlap_filter_def new_booking_def Let_def)

subsection \<open>cancel without storage failure\<close>

lemma cancel_NoFault_found:
  assumes "List.find (\<lambda>b. booking_id b = i) (booking_table db) = Some b"
  shows "cancel NoFault utcnow db i =
      (Inr (Some (cancelled utcnow b)),
       db \<lparr> booking_table := write_row (cancelled utcnow b) (booking_table db) \<rparr>)"
  using assms by (simp add: cancel_def cancelled_def Let_def)

subsection \<open>The expiry task as a map over the rows\<close>

text \<open>
  With unique primary keys, writing the modified objects back row by row is the same as
  deactivating each expired row in place.
\<close>

lemma foldr_write_row:
  assumes "distinct (map booking_id rows)"
    and "set es \<subseteq> set rows"
    and "\<And>b. booking_id (g b) = booking_id b"
  shows "foldr write_row (map g es) rows = map (\<lambda>b. if b \<in> set es then g b else b) rows"
  using assms(2)
proof (induction es)
  case Nil
  then show ?case by simp
next
  case (Cons e es)
  have inj: "inj_on booking_id (set rows)"
    using assms(1) by (simp add: distinct_map)
  have e: "e \<in> set rows" using Cons.prems by simp
  have ih: "foldr write_row (map g es) rows = map (\<lambda>b. if b \<in> set es then g b else b) rows"
    using Cons by simp
  have "foldr write_row (map g (e # es)) rows
      = write_row (g e) (map (\<lambda>b. if b \<in> set es then g b else b) rows)"
    by (simp add: ih)
  also have "\<dots> = map (\<lambda>b. if b \<in> set (e # es) then g b else b) rows"
    unfolding write_row_def map_map
  proof (rule map_cong [OF refl])
    fix b assume b: "b \<in> set rows"
    have "booking_id b = booking_id e \<longleftrightarrow> b = e"
      using inj b e by (auto dest: inj_onD)
    then show "((\<lambda>r. if booking_id r = booking_id (g e) then g e else r) \<circ>
                (\<lambda>b. if b \<in> set es then g b else b)) b
             = (if b \<in> set (e # es) then g b else b)"
      by (auto simp: assms(3))
  qed
  finally show ?case .
qed

lemma update_bookings_NoFault:
  assumes "distinct (map booking_id (booking_table db))"
  shows "update_bookings NoFault utcnow db =
           (Inr (), db \<lparr> booking_table := map (sweep_row utcnow) (booking_table db) \<rparr>)"
proof -
  let ?P = "\<lambda>b. end_time b < utcnow + timedelta_hours 3 \<and> active b = True"
  have "foldr write_row
          (map (\<lambda>booking. booking \<lparr> active := False \<rparr>) (filter ?P (booking_table db)))
          (booking_table db)
      = map (\<lambda>b. if b \<in> set (filter ?P (booking_table db)) then b \<lparr> active := False \<rparr> else b)
          (booking_table db)"
    by (rule foldr_write_row [OF assms]) auto
  also have "\<dots> = map (sweep_row utcnow) (booking_table db)"
    by (rule map_cong [OF refl]) (auto simp: sweep_row_def expired_def)
  finally show ?thesis
    by (simp add: update_bookings_def Let_def)
qed

lemma sweep_row_id: "booking_id (sweep_row utcnow b) = booking_id b"
  by (simp add: sweep_row_def)

lemma not_expired_sweep_row: "\<not> expired utcnow (sweep_row utcnow b)"
  by (simp add: sweep_row_def expired_def)

lemma sweep_row_idem: "sweep_row utcnow (sweep_row utcnow b) = sweep_row utcnow b"
  using not_expired_sweep_row [of utcnow b]
  by (simp add: sweep_row_def [of utcnow "sweep_row utcnow b"])

lemma count_active_sweep:
  "length (filter active (map (sweep_row utcnow) rows)) + length (filter (expired utcnow) rows)
     = length (filter active rows)"
  by (induction rows) (auto simp: sweep_row_def expired_def)

subsection \<open>The effect of a storage failure, operation by operation\<close>

text \<open>
  A fault in a call the operation reaches makes it raise the storage error; a fault in a
  call it does not reach changes nothing. The database is the one before the operation
  unless the failing call is the refresh that follows the commit (call 4 of create and
  update, call 2 of cancel): then it is the database the successful run leaves.
\<close>

lemma create_under_fault:
  "create (FailAt k msg) db x =
    (if k < create_calls db x
     then (storage_error msg, if k = 4 then snd (create NoFault db x) else db)
     else create NoFault db x)"
  by (auto simp: create_def create_try_def create_calls_def storage_error_def rollback_def Let_def)

lemma update_under_fault:
  "update (FailAt k msg) db db_obj x =
    (if k < update_calls db db_obj x
     then (storage_error msg, if k = 4 then snd (update NoFault db db_obj x) else db)
     else update NoFault db db_obj x)"
  by (auto simp: update_def update_try_def update_calls_def storage_error_def rollback_def
      truthy_def py_or_def Let_def)

lemma cancel_under_fault:
  "cancel (FailAt k msg) utcnow db i =
    (if k < cancel_calls db i
     then (storage_error msg, if k = 2 then snd (cancel NoFault utcnow db i) else db)
     else cancel NoFault utcnow db i)"
  by (auto simp: cancel_def cancel_calls_def storage_error_def Let_def split: option.splits)

lemma remove_under_fault:
  "remove (FailAt k msg) db i =
    (if k < remove_calls db i then (storage_error msg, db) else remove NoFault db i)"
  by (auto simp: remove_def remove_calls_def storage_error_def Let_def split: option.splits)

text \<open>
  A failure of the commit, or of a call before it, aborts the operation with the storage
  error and leaves the database as it was; remove has no call after its commit.
\<close>

lemma storage_failure_up_to_commit:
  "k < create_calls db x \<Longrightarrow> k \<le> 3 \<Longrightarrow> create (FailAt k msg) db x = (storage_error msg, db)"
  "k < update_calls db db_obj x \<Longrightarrow> k \<le> 3 \<Longrightarrow>
     update (FailAt k msg) db db_obj x = (storage_error msg, db)"
  "k < cancel_calls db i \<Longrightarrow> k \<le> 1 \<Longrightarrow>
     cancel (FailAt k msg) utcnow db i = (storage_error msg, db)"
  "k < remove_calls db i \<Longrightarrow> remove (FailAt k msg) db i = (storage_error msg, db)"
  by (simp_all add: create_under_fault update_under_fault cancel_under_fault remove_under_fault)

subsection \<open>A successful update\<close>

lemma update_success_fields:
  assumes "update f db db_obj x = (Inr (Some r), db')"
  shows "booking_id r = booking_id db_obj
    \<and> book_id r = in_book_id x \<and> user_id r = in_user_id x
    \<and> start_time r = in_start_time x \<and> end_time r = in_end_time x
    \<and> (case in_active x of None \<Rightarrow> active r = active db_obj | Some a \<Rightarrow> active r = a)
    \<and> length (booking_table db') = length (booking_table db)
    \<and> (\<forall>k < length (booking_table db).
          booking_table db' ! k =
            (if booking_id (booking_table db ! k) = booking_id db_obj then r
             else booking_table db ! k))
    \<and> book_table db' = book_table db \<and> user_table db' = user_table db
    \<and> booking_seq db' = booking_seq db"
proof -
  from assms have t: "update_try f db db_obj x = (Inr (Some r), db')"
    by (auto simp: update_def split: prod.splits sum.splits)
  then have r: "r = set_fields db_obj x"
    and db': "db' = db \<lparr> booking_table := write_row r (booking_table db) \<rparr>"
    by (auto simp: update_try_def Let_def split: if_splits)
  have flds: "booking_id r = booking_id db_obj \<and> book_id r = in_book_id x
    \<and> user_id r = in_user_id x
    \<and> start_time r = in_start_time x \<and> end_time r = in_end_time x
    \<and> (case in_active x of None \<Rightarrow> active r = active db_obj | Some a \<Rightarrow> active r = a)"
    by (simp add: r set_fields_def Let_def split: option.splits)
  show ?thesis
    using flds by (simp add: db' write_row_def)
qed

subsection \<open>Operations that keep the stored bookings conflict free\<close>

lemma non_overlap_append:
  assumes "non_overlap rows"
    and "List.find (overlap_filter (book_id n) (start_time n) (end_time n)) rows = None"
  shows "non_overlap (rows @ [n])"
  using assms
  unfolding non_overlap_def overlaps_def find_None_iff overlap_filter_def
  by (auto simp: not_less)

lemma non_overlap_write_row:
  assumes "non_overlap rows"
    and "active n \<longrightarrow>
         List.find (\<lambda>b. overlap_filter (book_id n) (start_time n) (end_time n) b
                        \<and> booking_id b \<noteq> booking_id n) rows = None"
  shows "non_overlap (write_row n rows)"
  using assms
  unfolding non_overlap_def overlaps_def find_None_iff overlap_filter_def write_row_def
  by (auto simp: not_less split: if_splits)

lemma create_preserves_non_overlap:
  assumes "non_overlap (booking_table db)"
  shows "non_overlap (booking_table (snd (create f db x)))"
proof -
  let ?n = "\<lparr> booking_id = booking_seq db, book_id = in_book_id x, user_id = in_user_id x,
              start_time = in_start_time x, end_time = in_end_time x, active = get_active x \<rparr>"
  have "booking_table (snd (create f db x)) = booking_table db
      \<or> (booking_table (snd (create f db x)) = booking_table db @ [?n]
         \<and> List.find (overlap_filter (in_book_id x) (in_start_time x) (in_end_time x))
              (booking_table db) = None)"
    by (simp add: create_def create_try_def rollback_def Let_def)
  then show ?thesis
    using assms non_overlap_append [of "booking_table db" ?n] by auto
qed

text \<open>An update that leaves the booking on its book keeps the stored bookings conflict free.\<close>

lemma update_preserves_non_overlap:
  assumes "non_overlap (booking_table db)"
    and "in_book_id x = book_id db_obj"
  shows "non_overlap (booking_table (snd (update f db db_obj x)))"
proof -
  let ?n = "set_fields db_obj x"
  have n: "book_id ?n = book_id db_obj" "start_time ?n = in_start_time x"
    "end_time ?n = in_end_time x" "booking_id ?n = booking_id db_obj"
    using assms(2) by (simp_all add: set_fields_def Let_def split: option.splits)
  have "booking_table (snd (update f db db_obj x)) = booking_table db
      \<or> (booking_table (snd (update f db db_obj x)) = write_row ?n (booking_table db)
         \<and> List.find (\<lambda>b. overlap_filter (book_id db_obj) (in_start_time x) (in_end_time x) b
                           \<and> booking_id b \<noteq> booking_id db_obj) (booking_table db) = None)"
    by (simp add: update_def update_try_def rollback_def truthy_def py_or_def Let_def)
  then show ?thesis
    using assms(1) non_overlap_write_row [of "booking_table db" ?n] by (auto simp: n)
qed

lemma cancel_preserves_non_overlap:
  assumes "non_overlap (booking_table db)"
  shows "non_overlap (booking_table (snd (cancel f utcnow db i)))"
proof -
  have "booking_table (snd (cancel f utcnow db i)) = booking_table db
      \<or> (\<exists>b. booking_table (snd (cancel f utcnow db i))
               = write_row (b \<lparr> active := False, end_time := utcnow + timedelta_hours 3 \<rparr>)
                   (booking_table db))"
    by (auto simp: cancel_def Let_def split: option.splits)
  then show ?thesis
    using assms non_overlap_write_row [of "booking_table db"] by auto
qed

lemma remove_preserves_non_overlap:
  assumes "non_overlap (booking_table db)"
  shows "non_overlap (booking_table (snd (remove f db i)))"
  using assms
  by (auto simp: remove_def non_overlap_def split: option.splits)

lemma non_overlap_sweep_rows:
  "non_overlap rows \<Longrightarrow> non_overlap (map (sweep_row utcnow) rows)"
  by (auto simp: non_overlap_def overlaps_def sweep_row_def split: if_splits)

lemma sweep_preserves_non_overlap:
  assumes "non_overlap (booking_table db)"
    and "distinct (map booking_id (booking_table db))"
  shows "non_overlap (booking_table (snd (update_bookings f utcnow db)))"
proof -
  have "update_bookings f utcnow db = update_bookings NoFault utcnow db
      \<or> snd (update_bookings f utcnow db) = db"
    by (cases f) (simp_all add: update_bookings_def Let_def)
  then show ?thesis
  proof
    assume e: "update_bookings f utcnow db = update_bookings NoFault utcnow db"
    show ?thesis
      using non_overlap_sweep_rows [OF assms(1), of utcnow]
      by (simp add: e update_bookings_NoFault [OF assms(2)])
  next
    assume "snd (update_bookings f utcnow db) = db"
    then show ?thesis using assms(1) by simp
  qed
qed

section \<open>The claims\<close>

subsection \<open>C1: the non-overlap invariant\<close>

text \<open>
  C1 states that every sequence of create, update, cancel, delete and expiry operations,
  started in a state where no two distinct active bookings of one book overlap, ends in
  such a state. Create, cancel, delete, the expiry task and every update that keeps the
  booking on its book do preserve the invariant (the lemmas above). An update that moves
  a booking to another book does not: its overlap query filters on the book of the stored
  object, \<^verbatim>\<open>db_obj.book_id\<close>, and the loop that follows writes the book of the request.
  In \<open>db_two\<close> booking 1 holds book 7 and booking 2 holds book 8, both over \<open>[10, 12)\<close>;
  the invariant holds. The request \<^verbatim>\<open>PUT /2\<close> with body \<open>req_move\<close> (book 7, same
  interval) is answered with the updated booking, and afterwards bookings 1 and 2 are
  both active on book 7 over the same interval.
\<close>

theorem update_moves_booking_onto_occupied_book:
  "non_overlap (booking_table db_two)
 \<and> fst (update_booking http_str NoFault db_two 2 req_move) = Ok (bk2 \<lparr> book_id := 7 \<rparr>)
 \<and> \<not> non_overlap (booking_table (snd (update_booking http_str NoFault db_two 2 req_move)))"
  by (simp add: non_overlap_def overlaps_def db_two_def bk1_def bk2_def req_move_def
      update_booking_def get_def if_not_def update_def update_try_def truthy_def py_or_def
      overlap_filter_def set_fields_def write_row_def except_Exception_def Let_def)

text \<open>
  The same run with the framework's text of an exception fixed, and the two tables
  written out: before the request the rows are conflict free, after it they are not.
\<close>

theorem update_moves_booking_onto_occupied_book_witness:
  "non_overlap [bk1, bk2]
 \<and> update_booking (\<lambda>status detail. detail) NoFault db_two 2 req_move
     = (Ok (bk2 \<lparr> book_id := 7 \<rparr>),
        db_two \<lparr> booking_table := [bk1, bk2 \<lparr> book_id := 7 \<rparr>] \<rparr>)
 \<and> \<not> non_overlap [bk1, bk2 \<lparr> book_id := 7 \<rparr>]"
proof -
  have t: "booking_table db_two = [bk1, bk2]"
    by (simp add: db_two_def)
  have u: "update_booking (\<lambda>status detail. detail) NoFault db_two 2 req_move
     = (Ok (bk2 \<lparr> book_id := 7 \<rparr>),
        db_two \<lparr> booking_table := [bk1, bk2 \<lparr> book_id := 7 \<rparr>] \<rparr>)"
    by (simp add: update_booking_def get_def if_not_def update_def update_try_def truthy_def
        py_or_def overlap_filter_def set_fields_def write_row_def except_Exception_def Let_def
        fixtures)
  show ?thesis
    using update_moves_booking_onto_occupied_book [of "\<lambda>status detail. detail"]
    by (simp add: t u)
qed

subsection \<open>C2: create returns the conflict outcome exactly on overlap\<close>

text \<open>
  C2: for a create request with \<open>start_time < end_time\<close> whose book and user exist, and
  with no storage failure, \<open>create\<close> returns the conflict outcome \<^verbatim>\<open>None\<close> (a return
  value, not an exception) if and only if some stored active booking of the same book
  has \<open>end_time > start_time\<close> of the request and \<open>start_time < end_time\<close> of the
  request, and then stores nothing; otherwise it appends and returns a booking with exactly the
  requested fields. In particular a request that only touches the stored active bookings
  of its book at an end point succeeds.
\<close>

theorem create_conflict_iff_overlap:
  assumes "in_start_time x < in_end_time x"
    and "in_book_id x \<in> set (book_table db)"
    and "in_user_id x \<in> set (user_table db)"
  shows "(fst (create NoFault db x) = Inr None \<longleftrightarrow> blocked db x)
    \<and> (blocked db x \<longrightarrow> snd (create NoFault db x) = db)
    \<and> (\<not> blocked db x \<longrightarrow>
          create NoFault db x =
            (Inr (Some (new_booking db x)),
             db \<lparr> booking_table := booking_table db @ [new_booking db x],
                  booking_seq := booking_seq db + 1 \<rparr>))
    \<and> ((\<forall>b \<in> set (booking_table db).
            book_id b = in_book_id x \<and> active b \<longrightarrow>
              end_time b \<le> in_start_time x \<or> in_end_time x \<le> start_time b)
          \<longrightarrow> fst (create NoFault db x) = Inr (Some (new_booking db x)))"
  using create_NoFault [OF assms]
  by (auto simp: blocked_def)

text \<open>
  The adjacent request of the specification: booking 1 holds book 7 over \<open>[10, 12)\<close>,
  the request asks for book 7 over \<open>[12, 14)\<close> and is granted.
\<close>

theorem create_conflict_iff_overlap_witness:
  "in_start_time req_adjacent < in_end_time req_adjacent
 \<and> in_book_id req_adjacent \<in> set (book_table db_two)
 \<and> in_user_id req_adjacent \<in> set (user_table db_two)
 \<and> \<not> blocked db_two req_adjacent
 \<and> fst (create NoFault db_two req_adjacent) =
      Inr (Some \<lparr> booking_id = 3, book_id = 7, user_id = 5, start_time = 12, end_time = 14,
                  active = True \<rparr>)"
proof -
  have h1: "in_start_time req_adjacent < in_end_time req_adjacent"
    and h2: "in_book_id req_adjacent \<in> set (book_table db_two)"
    and h3: "in_user_id req_adjacent \<in> set (user_table db_two)"
    by (simp_all add: fixtures)
  have nb: "\<not> blocked db_two req_adjacent"
    by (simp add: blocked_def fixtures)
  show ?thesis
    using h1 h2 h3 nb create_conflict_iff_overlap [OF h1 h2 h3]
    by (simp add: new_booking_def get_active_def fixtures)
qed

subsection \<open>C3: the ordering precondition\<close>

text \<open>
  C3: a create or an update whose request has \<open>start_time \<ge> end_time\<close> raises the
  validation error and leaves the database as it was, whatever the storage does (the
  check precedes every storage call). The update request always carries both instants,
  so the resulting interval is the requested one.
\<close>

theorem ordering_precondition:
  assumes "in_start_time x \<ge> in_end_time x"
  shows "create f db x =
           (Inl (Exception ''Validation error: Start time must be before end time''), db)
       \<and> update f db db_obj x =
           (Inl (Exception ''Validation error: Start time must be before end time''), db)"
  using assms
  by (simp add: create_def create_try_def update_def update_try_def truthy_def rollback_def)

theorem ordering_precondition_witness:
  "in_end_time req_empty \<le> in_start_time req_empty
 \<and> create NoFault db_two req_empty =
      (Inl (Exception ''Validation error: Start time must be before end time''), db_two)
 \<and> update NoFault db_two bk2 req_empty =
      (Inl (Exception ''Validation error: Start time must be before end time''), db_two)"
proof -
  have h: "in_end_time req_empty \<le> in_start_time req_empty"
    by (simp add: fixtures)
  show ?thesis
    using h ordering_precondition [OF h, of NoFault db_two bk2] by simp
qed

subsection \<open>C4: one run of the expiry task\<close>

text \<open>
  C4: with unique primary keys and no storage failure, one run of the expiry task
  deactivates exactly the bookings that are active and end before its reference time
  (\<open>utcnow\<close> plus three hours): each of them keeps every other field, every other
  booking is left as it is, the number of active bookings drops by the number of expired
  ones, and a second run at the same \<open>utcnow\<close> changes nothing.
\<close>

theorem sweep_convergence:
  assumes "distinct (map booking_id (booking_table db))"
  shows "fst (update_bookings NoFault utcnow db) = Inr ()
    \<and> length (booking_table (snd (update_bookings NoFault utcnow db))) = length (booking_table db)
    \<and> (\<forall>k < length (booking_table db).
          (expired utcnow (booking_table db ! k) \<longrightarrow>
             booking_table (snd (update_bookings NoFault utcnow db)) ! k
               = (booking_table db ! k) \<lparr> active := False \<rparr>)
        \<and> (\<not> expired utcnow (booking_table db ! k) \<longrightarrow>
             booking_table (snd (update_bookings NoFault utcnow db)) ! k = booking_table db ! k))
    \<and> length (filter active (booking_table (snd (update_bookings NoFault utcnow db))))
        + length (filter (expired utcnow) (booking_table db))
        = length (filter active (booking_table db))
    \<and> update_bookings NoFault utcnow (snd (update_bookings NoFault utcnow db))
        = (Inr (), snd (update_bookings NoFault utcnow db))"
proof -
  let ?db' = "db \<lparr> booking_table := map (sweep_row utcnow) (booking_table db) \<rparr>"
  have r: "update_bookings NoFault utcnow db = (Inr (), ?db')"
    by (rule update_bookings_NoFault [OF assms])
  have d': "distinct (map booking_id (booking_table ?db'))"
    using assms by (simp add: comp_def sweep_row_id)
  have again: "update_bookings NoFault utcnow ?db' = (Inr (), ?db')"
    using update_bookings_NoFault [OF d', of utcnow] by (simp add: comp_def sweep_row_idem)
  have pointwise: "\<forall>k < length (booking_table db).
          (expired utcnow (booking_table db ! k) \<longrightarrow>
             booking_table ?db' ! k = (booking_table db ! k) \<lparr> active := False \<rparr>)
        \<and> (\<not> expired utcnow (booking_table db ! k) \<longrightarrow>
             booking_table ?db' ! k = booking_table db ! k)"
    by (simp add: sweep_row_def)
  show ?thesis
    using pointwise again count_active_sweep [of utcnow "booking_table db"]
    by (simp add: r)
qed

theorem sweep_convergence_witness:
  "distinct (map booking_id (booking_table db_two))
 \<and> expired 0 bk1 \<and> expired 0 bk2
 \<and> booking_table (snd (update_bookings NoFault 0 db_two))
      = [bk1 \<lparr> active := False \<rparr>, bk2 \<lparr> active := False \<rparr>]
 \<and> update_bookings NoFault 0 (snd (update_bookings NoFault 0 db_two))
      = (Inr (), snd (update_bookings NoFault 0 db_two))"
proof -
  have h: "distinct (map booking_id (booking_table db_two))"
    by (simp add: fixtures)
  have e: "expired 0 bk1 \<and> expired 0 bk2"
    by (simp add: expired_def timedelta_hours_def fixtures)
  have t: "booking_table db_two = [bk1, bk2]"
    by (simp add: db_two_def)
  have "length (booking_table (snd (update_bookings NoFault 0 db_two))) = 2
      \<and> booking_table (snd (update_bookings NoFault 0 db_two)) ! 0 = bk1 \<lparr> active := False \<rparr>
      \<and> booking_table (snd (update_bookings NoFault 0 db_two)) ! 1 = bk2 \<lparr> active := False \<rparr>"
    using sweep_convergence [OF h, of 0] e by (simp add: t)
  then have "booking_table (snd (update_bookings NoFault 0 db_two))
      = [bk1 \<lparr> active := False \<rparr>, bk2 \<lparr> active := False \<rparr>]"
    by (simp add: list_eq_iff_nth_eq nth_Cons' less_Suc_eq numeral_2_eq_2)
  then show ?thesis
    using h e sweep_convergence [OF h, of 0] by simp
qed

subsection \<open>C5: cancel\<close>

text \<open>
  C5: without storage failure, cancelling an id that no booking has returns \<^verbatim>\<open>None\<close>
  and changes nothing; cancelling an id of a stored booking returns that booking with
  \<open>active = False\<close> and \<open>end_time\<close> set to \<open>utcnow\<close> plus three hours, stores it under
  the same id and leaves every other row as it was. No overlap query is made, so on a
  stored booking the call never answers with the conflict outcome.
\<close>

theorem cancel_deactivates:
  "(List.find (\<lambda>b. booking_id b = i) (booking_table db) = None \<longrightarrow>
      cancel NoFault utcnow db i = (Inr None, db))
 \<and> (\<forall>b. List.find (\<lambda>b. booking_id b = i) (booking_table db) = Some b \<longrightarrow>
      fst (cancel NoFault utcnow db i) = Inr (Some (cancelled utcnow b))
    \<and> active (cancelled utcnow b) = False
    \<and> end_time (cancelled utcnow b) = utcnow + 10800000000
    \<and> List.find (\<lambda>b. booking_id b = i) (booking_table (snd (cancel NoFault utcnow db i)))
        = Some (cancelled utcnow b)
    \<and> length (booking_table (snd (cancel NoFault utcnow db i))) = length (booking_table db)
    \<and> (\<forall>k < length (booking_table db). booking_id (booking_table db ! k) \<noteq> i \<longrightarrow>
          booking_table (snd (cancel NoFault utcnow db i)) ! k = booking_table db ! k))"
proof (intro conjI allI impI)
  assume "List.find (\<lambda>b. booking_id b = i) (booking_table db) = None"
  then show "cancel NoFault utcnow db i = (Inr None, db)"
    by (simp add: cancel_def)
next
  fix b
  assume f: "List.find (\<lambda>b. booking_id b = i) (booking_table db) = Some b"
  note c = cancel_NoFault_found [OF f, of utcnow]
  have idb: "booking_id (cancelled utcnow b) = i"
    using find_Some_id [OF f] by (simp add: cancelled_def)
  show "fst (cancel NoFault utcnow db i) = Inr (Some (cancelled utcnow b))"
    by (simp add: c)
  show "active (cancelled utcnow b) = False"
    by (simp add: cancelled_def)
  show "end_time (cancelled utcnow b) = utcnow + 10800000000"
    by (simp add: cancelled_def timedelta_hours_def)
  show "List.find (\<lambda>b. booking_id b = i) (booking_table (snd (cancel NoFault utcnow db i)))
        = Some (cancelled utcnow b)"
    using find_write_row [OF f idb] by (simp add: c)
  show "length (booking_table (snd (cancel NoFault utcnow db i))) = length (booking_table db)"
    by (simp add: c write_row_def)
  fix k
  assume "k < length (booking_table db)" "booking_id (booking_table db ! k) \<noteq> i"
  then show "booking_table (snd (cancel NoFault utcnow db i)) ! k = booking_table db ! k"
    using idb by (simp add: c write_row_def)
qed

theorem cancel_deactivates_witness:
  "List.find (\<lambda>b. booking_id b = 1) (booking_table db_two) = Some bk1
 \<and> fst (cancel NoFault 0 db_two 1) = Inr (Some (bk1 \<lparr> active := False, end_time := 10800000000 \<rparr>))
 \<and> List.find (\<lambda>b. booking_id b = 9) (booking_table db_two) = None
 \<and> cancel NoFault 0 db_two 9 = (Inr None, db_two)"
proof -
  have h: "List.find (\<lambda>b. booking_id b = 1) (booking_table db_two) = Some bk1"
    and n: "List.find (\<lambda>b. booking_id b = 9) (booking_table db_two) = None"
    by (simp_all add: fixtures)
  show ?thesis
    using h n cancel_deactivates [of 1 db_two 0] cancel_deactivates [of 9 db_two 0]
    by (simp add: cancelled_def timedelta_hours_def)
qed

subsection \<open>C6: cancelling an inactive booking\<close>

text \<open>
  C6 states that cancelling a booking that is already inactive is either a no-op that
  returns its current state or a not-found. \<open>cancel\<close> does not look at \<open>active\<close>
  and writes \<open>end_time\<close> again. In \<open>db_off\<close> the inactive booking 1 ends at 12;
  cancelling it at \<open>utcnow = 0\<close> returns it, and stores it, with another end: neither
  a no-op nor a not-found.
\<close>

theorem cancel_inactive_not_noop_counterexample:
  "List.find (\<lambda>b. booking_id b = 1) (booking_table db_off) = Some bk_off
 \<and> \<not> active bk_off
 \<and> \<not> (cancel NoFault 0 db_off 1 = (Inr (Some bk_off), db_off)
       \<or> fst (cancel NoFault 0 db_off 1) = Inr None)"
  by (simp add: cancel_def write_row_def timedelta_hours_def Let_def fixtures)

text \<open>
  C6 as amended: without storage failure, cancelling a stored booking that is already
  inactive returns and stores, for every such booking alike, that booking with
  \<open>end_time\<close> reset to \<open>utcnow\<close> plus three hours and nothing else changed (its id,
  \<open>start_time\<close>, \<open>book_id\<close>, \<open>user_id\<close> and \<open>active = False\<close> are kept), and
  leaves every other row as it was.
\<close>

theorem cancel_inactive_resets_end_time:
  assumes "List.find (\<lambda>b. booking_id b = i) (booking_table db) = Some b"
    and "\<not> active b"
  shows "fst (cancel NoFault utcnow db i) = Inr (Some (b \<lparr> end_time := utcnow + timedelta_hours 3 \<rparr>))
    \<and> List.find (\<lambda>b. booking_id b = i) (booking_table (snd (cancel NoFault utcnow db i)))
        = Some (b \<lparr> end_time := utcnow + timedelta_hours 3 \<rparr>)
    \<and> (\<forall>k < length (booking_table db). booking_id (booking_table db ! k) \<noteq> i \<longrightarrow>
          booking_table (snd (cancel NoFault utcnow db i)) ! k = booking_table db ! k)"
proof -
  have eq: "cancelled utcnow b = b \<lparr> end_time := utcnow + timedelta_hours 3 \<rparr>"
    using assms(2) by (simp add: cancelled_def)
  have idb: "booking_id (cancelled utcnow b) = i"
    using find_Some_id [OF assms(1)] by (simp add: cancelled_def)
  show ?thesis
    using find_write_row [OF assms(1) idb] idb
    by (simp add: cancel_NoFault_found [OF assms(1)] eq write_row_def)
qed

theorem cancel_inactive_resets_end_time_witness:
  "List.find (\<lambda>b. booking_id b = 1) (booking_table db_off) = Some bk_off
 \<and> \<not> active bk_off
 \<and> fst (cancel NoFault 0 db_off 1) = Inr (Some (bk_off \<lparr> end_time := 10800000000 \<rparr>))"
proof -
  have h: "List.find (\<lambda>b. booking_id b = 1) (booking_table db_off) = Some bk_off"
    and a: "\<not> active bk_off"
    by (simp_all add: fixtures)
  show ?thesis
    using h a cancel_inactive_resets_end_time [OF h a, of 0]
    by (simp add: timedelta_hours_def)
qed

subsection \<open>C7: an update changes the supplied fields only\<close>

text \<open>
  C7: when the update of booking \<open>i\<close> succeeds (\<^verbatim>\<open>update_booking\<close> answers with a
  booking), a booking \<open>b\<close> was stored under \<open>i\<close>, and the booking stored and returned
  afterwards takes the value of every field the request supplies and keeps the value
  \<open>b\<close> had in every field the request does not supply. The request schema makes
  \<open>book_id\<close>, \<open>user_id\<close>, \<open>start_time\<close> and \<open>end_time\<close> required, so the fields that
  can be left out are \<open>active\<close> and the id, which no request carries. All other rows
  and the other tables are as before.
\<close>

theorem update_changes_supplied_fields:
  assumes "update_booking http_str f db i x = (Ok r, db')"
  shows "\<exists>b. List.find (\<lambda>b. booking_id b = i) (booking_table db) = Some b
    \<and> booking_id r = booking_id b
    \<and> book_id r = in_book_id x \<and> user_id r = in_user_id x
    \<and> start_time r = in_start_time x \<and> end_time r = in_end_time x
    \<and> (case in_active x of None \<Rightarrow> active r = active b | Some a \<Rightarrow> active r = a)
    \<and> length (booking_table db') = length (booking_table db)
    \<and> (\<forall>k < length (booking_table db).
          booking_table db' ! k =
            (if booking_id (booking_table db ! k) = i then r else booking_table db ! k))
    \<and> book_table db' = book_table db \<and> user_table db' = user_table db
    \<and> booking_seq db' = booking_seq db"
proof -
  from assms obtain b where g: "get f db i = Inr (Some b)"
    and u: "update (after 1 f) db b x = (Inr (Some r), db')"
    by (auto simp: update_booking_def if_not_def except_Exception_def
        split: sum.splits option.splits prod.splits)
  from g have fnd: "List.find (\<lambda>b. booking_id b = i) (booking_table db) = Some b"
    by (simp add: get_def split: if_splits)
  have idb: "booking_id b = i"
    using find_Some_id [OF fnd] by simp
  show ?thesis
    using update_success_fields [OF u] fnd idb by simp
qed

text \<open>
  Booking 2 is moved to \<open>[20, 22)\<close> by a request that leaves \<open>active\<close> unset: the
  stored booking keeps its id and stays active.
\<close>

theorem update_changes_supplied_fields_witness:
  "update_booking (\<lambda>status detail. detail) NoFault db_two 2 req_later =
     (Ok (bk2 \<lparr> start_time := 20, end_time := 22 \<rparr>),
      db_two \<lparr> booking_table := [bk1, bk2 \<lparr> start_time := 20, end_time := 22 \<rparr>] \<rparr>)
 \<and> List.find (\<lambda>b. booking_id b = 2) (booking_table db_two) = Some bk2
 \<and> booking_id (bk2 \<lparr> start_time := 20, end_time := 22 \<rparr>) = booking_id bk2
 \<and> active (bk2 \<lparr> start_time := 20, end_time := 22 \<rparr>) = active bk2"
proof -
  have h: "update_booking (\<lambda>status detail. detail) NoFault db_two 2 req_later =
     (Ok (bk2 \<lparr> start_time := 20, end_time := 22 \<rparr>),
      db_two \<lparr> booking_table := [bk1, bk2 \<lparr> start_time := 20, end_time := 22 \<rparr>] \<rparr>)"
    by (simp add: update_booking_def get_def if_not_def except_Exception_def update_def
        update_try_def truthy_def py_or_def overlap_filter_def set_fields_def write_row_def
        Let_def fixtures)
  have f: "List.find (\<lambda>b. booking_id b = 2) (booking_table db_two) = Some bk2"
    by (simp add: fixtures)
  show ?thesis
    using h f update_changes_supplied_fields [OF h]
    by (simp add: fixtures)
qed

subsection \<open>C8: the outcome kinds at the caller\<close>

text \<open>
  C8 states that validation error, conflict, not-found and storage error each reach the
  caller as a kind of their own, and that a not-found is never surfaced as a storage
  error. \<^verbatim>\<open>read_booking\<close> raises \<^verbatim>\<open>HTTPException(404)\<close> for a missing booking inside its
  own \<^verbatim>\<open>try\<close> block, and its handler \<^verbatim>\<open>except Exception\<close> turns that into status 500,
  the status it gives to a storage failure: for the id 99, which \<open>db_two\<close> does not
  hold, the answer without any failure and the answer under a failing query carry the
  same status code, 500. (\<^verbatim>\<open>cancel_booking\<close> and \<^verbatim>\<open>delete_booking\<close> have the same
  handler.)
\<close>

theorem not_found_surfaces_as_500:
  "read_booking http_str NoFault db_two 99 = HTTPException 500 (http_str 404 ''Booking not found'')
 \<and> read_booking http_str (FailAt 0 msg) db_two 99
      = HTTPException 500 (''Database error occurred: '' @ msg)
 \<and> status_code (read_booking http_str NoFault db_two 99)
      = status_code (read_booking http_str (FailAt 0 msg) db_two 99)"
  by (simp add: read_booking_def get_def if_not_def except_Exception_def db_two_def bk1_def bk2_def)

subsection \<open>C9: storage failures\<close>

text \<open>
  C9 states that an operation hit by a storage failure raises the storage error and
  leaves the stored state as it was before the operation. That holds for a failure of
  the commit or of any call before it, and for every call of remove (lemma
  \<open>storage_failure_up_to_commit\<close>). In \<open>create\<close>, \<open>update\<close> and \<open>cancel\<close> the commit
  is followed by \<^verbatim>\<open>db.refresh(db_obj)\<close> inside the same \<^verbatim>\<open>try\<close>. When that call fails,
  the handler runs (in \<open>create\<close> and \<open>update\<close> it calls \<^verbatim>\<open>db.rollback()\<close>, which
  has nothing left to undo) and the storage error is raised although the commit has
  already stored the change. In \<open>db_two\<close>: the create of the request for book 7 over
  \<open>[12, 14)\<close> raises the storage error and the table has the new row; the update of
  booking 2 to \<open>[20, 22)\<close> raises it and the row is moved; the cancel of booking 1
  raises it and the row is cancelled.
\<close>

theorem storage_error_after_commit:
  "create (FailAt 4 ''connection lost'') db_two req_adjacent
     = (storage_error ''connection lost'',
        db_two \<lparr> booking_table := [bk1, bk2, new_booking db_two req_adjacent],
                 booking_seq := 4 \<rparr>)
 \<and> update (FailAt 4 ''connection lost'') db_two bk2 req_later
     = (storage_error ''connection lost'',
        db_two \<lparr> booking_table := [bk1, bk2 \<lparr> start_time := 20, end_time := 22 \<rparr>] \<rparr>)
 \<and> cancel (FailAt 2 ''connection lost'') 0 db_two 1
     = (storage_error ''connection lost'',
        db_two \<lparr> booking_table := [cancelled 0 bk1, bk2] \<rparr>)
 \<and> booking_table (snd (create (FailAt 4 ''connection lost'') db_two req_adjacent))
     \<noteq> booking_table db_two
 \<and> booking_table (snd (update (FailAt 4 ''connection lost'') db_two bk2 req_later))
     \<noteq> booking_table db_two
 \<and> booking_table (snd (cancel (FailAt 2 ''connection lost'') 0 db_two 1))
     \<noteq> booking_table db_two"
  by (simp add: create_def create_try_def update_def update_try_def cancel_def storage_error_def
      overlap_filter_def rollback_def truthy_def py_or_def set_fields_def write_row_def
      new_booking_def cancelled_def get_active_def Let_def fixtures)

subsection \<open>C10: an expired booking that is still active blocks\<close>

text \<open>
  C10: a create request (valid interval, existing book and user, no storage failure) that
  overlaps a stored active booking of its book gets the conflict outcome and stores
  nothing, also when that booking's \<open>end_time\<close> lies before the current time \<open>now\<close>
  and the expiry task has not yet deactivated it: the overlap query compares
  \<open>end_time\<close> with the requested start only, never with a clock.
\<close>

theorem create_blocked_by_unswept_booking:
  assumes "in_start_time x < in_end_time x"
    and "in_book_id x \<in> set (book_table db)"
    and "in_user_id x \<in> set (user_table db)"
    and "b \<in> set (booking_table db)"
    and "book_id b = in_book_id x"
    and "active b"
    and "end_time b < now"
    and "end_time b > in_start_time x"
    and "start_time b < in_end_time x"
  shows "create NoFault db x = (Inr None, db)"
proof -
  have "blocked db x"
    unfolding blocked_def using assms(4,5,6,8,9) by blast
  then show ?thesis
    using create_NoFault [OF assms(1,2,3)] by simp
qed

theorem create_blocked_by_unswept_booking_witness:
  "in_start_time req_overlap < in_end_time req_overlap
 \<and> in_book_id req_overlap \<in> set (book_table db_two)
 \<and> in_user_id req_overlap \<in> set (user_table db_two)
 \<and> bk1 \<in> set (booking_table db_two) \<and> book_id bk1 = in_book_id req_overlap \<and> active bk1
 \<and> end_time bk1 < 100
 \<and> end_time bk1 > in_start_time req_overlap \<and> start_time bk1 < in_end_time req_overlap
 \<and> create NoFault db_two req_overlap = (Inr None, db_two)"
proof -
  have h1: "in_start_time req_overlap < in_end_time req_overlap"
    and h2: "in_book_id req_overlap \<in> set (book_table db_two)"
    and h3: "in_user_id req_overlap \<in> set (user_table db_two)"
    and h4: "bk1 \<in> set (booking_table db_two)"
    and h5: "book_id bk1 = in_book_id req_overlap"
    and h6: "active bk1"
    and h7: "end_time bk1 < 100"
    and h8: "end_time bk1 > in_start_time req_overlap"
    and h9: "start_time bk1 < in_end_time req_overlap"
    by (simp_all add: fixtures)
  show ?thesis
    using h1 h2 h3 h4 h5 h6 h7 h8 h9
      create_blocked_by_unswept_booking [OF h1 h2 h3 h4 h5 h6 h7 h8 h9]
    by simp
qed

end
